theory Spec2Isabelle
  imports Complex_Main
begin

section \<open>JavaScript numbers\<close>

text \<open>
  The hooks of \<^verbatim>\<open>src/App.js\<close> compute with JavaScript Numbers. A time value
  (\<^verbatim>\<open>Date.prototype.getTime\<close>) is an integral number of milliseconds and is modelled
  as an \<open>int\<close>; every other finite Number is modelled as a \<open>real\<close> and the arithmetic
  operators are taken exact (the rounding of IEEE doubles is not part of the model).

  \<^verbatim>\<open>Math.floor\<close> is \<open>floor\<close>. The remainder operator \<^verbatim>\<open>%\<close> truncates: the result
  is \<open>n - d * q\<close> where \<open>q\<close> is the quotient \<open>n / d\<close> rounded towards zero, so that the
  result has the sign of the dividend. It is only used below with a literal non-zero
  divisor.
\<close>

definition trunc :: "real \<Rightarrow> int" where
  "trunc q = (if 0 \<le> q then \<lfloor>q\<rfloor> else \<lceil>q\<rceil>)"

definition js_rem :: "real \<Rightarrow> real \<Rightarrow> real" where
  "js_rem n d = n - d * of_int (trunc (n / d))"


section \<open>useCountdown\<close>

text \<open>
  \<^verbatim>\<open>
  const calculateTimeLeft = () => {
    const difference = targetDateRef.current.getTime() - new Date().getTime();
    let remaining = {};
    if (difference > 0) {
      remaining = {
        years: Math.floor(difference / (1000 * 60 * 60 * 24 * 365.25)),
        days: Math.floor((difference / (1000 * 60 * 60 * 24)) % 365.25),
        hours: Math.floor((difference / (1000 * 60 * 60)) % 24),
        minutes: Math.floor((difference / 1000 / 60) % 60),
        seconds: Math.floor((difference / 1000) % 60)
      };
    } else {
      remaining = { years: 0, days: 0, hours: 0, minutes: 0, seconds: 0 };
    }
    return remaining;
  };
  \<close>
  The two time values read by the closure are the arguments of the model: \<open>target\<close> is
  \<^verbatim>\<open>targetDateRef.current.getTime()\<close> and \<open>now\<close> is \<^verbatim>\<open>new Date().getTime()\<close>.
\<close>

record time_left =
  years :: int
  days :: int
  hours :: int
  minutes :: int
  seconds :: int

definition calculateTimeLeft :: "int \<Rightarrow> int \<Rightarrow> time_left" where
  "calculateTimeLeft target now =
     (let difference = real_of_int (target - now) in
      if difference > 0 then
        \<lparr> years = \<lfloor>difference / (1000 * 60 * 60 * 24 * 365.25)\<rfloor>,
          days = \<lfloor>js_rem (difference / (1000 * 60 * 60 * 24)) 365.25\<rfloor>,
          hours = \<lfloor>js_rem (difference / (1000 * 60 * 60)) 24\<rfloor>,
          minutes = \<lfloor>js_rem (difference / 1000 / 60) 60\<rfloor>,
          seconds = \<lfloor>js_rem (difference / 1000) 60\<rfloor> \<rparr>
      else
        \<lparr> years = 0, days = 0, hours = 0, minutes = 0, seconds = 0 \<rparr>)"

subsection \<open>The countdown as the specification words it\<close>

text \<open>
  The specification gives the fields by \<open>floor\<close> and \<open>mod\<close>, the latter in the
  mathematical (flooring) sense, on the integers for hours, minutes and seconds and with
  the fractional modulus 365.25 for the days.
\<close>

definition ms_per_minute :: int where
  "ms_per_minute = 1000 * 60"

definition ms_per_hour :: int where
  "ms_per_hour = 1000 * 60 * 60"

definition ms_per_day :: int where
  "ms_per_day = 1000 * 60 * 60 * 24"

definition floor_mod :: "real \<Rightarrow> real \<Rightarrow> real" where
  "floor_mod a m = a - m * of_int \<lfloor>a / m\<rfloor>"

definition countdown_spec :: "int \<Rightarrow> int \<Rightarrow> time_left" where
  "countdown_spec target now =
     (let diff = target - now in
      if diff \<le> 0 then
        \<lparr> years = 0, days = 0, hours = 0, minutes = 0, seconds = 0 \<rparr>
      else
        \<lparr> years = \<lfloor>of_int diff / (of_int ms_per_day * 365.25 :: real)\<rfloor>,
          days = \<lfloor>floor_mod (of_int diff / of_int ms_per_day) 365.25\<rfloor>,
          hours = \<lfloor>of_int diff / (of_int ms_per_hour :: real)\<rfloor> mod 24,
          minutes = \<lfloor>of_int diff / (of_int ms_per_minute :: real)\<rfloor> mod 60,
          seconds = \<lfloor>of_int diff / (1000 :: real)\<rfloor> mod 60 \<rparr>)"


subsection \<open>The hook and the component that owns the target\<close>

text \<open>
  \<^verbatim>\<open>
  const useCountdown = (targetDateRef) => {
    const [timeLeft, setTimeLeft] = useState({});
    useEffect(() => {
      const calculateTimeLeft = ...
      setTimeLeft(calculateTimeLeft());
      const timer = setInterval(() => { setTimeLeft(calculateTimeLeft()); }, 1000);
      return () => clearInterval(timer);
    }, [targetDateRef]);
    return timeLeft;
  };

  const App = () => {
    // Set the target date to 5 years from today
    const targetDate = useRef(new Date());
    useEffect(() => {
      targetDate.current.setFullYear(targetDate.current.getFullYear() + 5);
    }, []);
    return ( ... <CountdownSection targetDateRef={targetDate} /> ... );
  };
  \<close>
  The state is the time value of the \<^verbatim>\<open>Date\<close> held by the ref and the \<^verbatim>\<open>timeLeft\<close>
  of the hook, \<open>None\<close> for the initial empty object \<^verbatim>\<open>{}\<close>. Rendering creates the ref
  with the current time. The effect of \<^verbatim>\<open>useCountdown\<close> stores a first state and every
  interval tick stores another, each computed from the ref as it is at that moment. The
  effect of \<^verbatim>\<open>App\<close> mutates the \<^verbatim>\<open>Date\<close> in place; \<^verbatim>\<open>setFullYear\<close> is a built-in
  whose result depends on the local calendar, so the map from the old time value to the
  new one is the parameter \<open>setFullYear5\<close>.

  React runs the effects of a commit children first: \<^verbatim>\<open>useCountdown\<close> is called by
  \<^verbatim>\<open>CountdownSection\<close>, a child of \<^verbatim>\<open>App\<close>, so its effect runs before the effect of
  \<^verbatim>\<open>App\<close>. \<open>mount\<close> is that sequence, with the time \<open>t_render\<close> read by
  \<^verbatim>\<open>new Date()\<close> in the render and the time \<open>t_effect\<close> read by the first
  \<^verbatim>\<open>calculateTimeLeft()\<close>.
\<close>

record countdown =
  targetDate :: int
  timeLeft :: "time_left option"

definition App_render :: "int \<Rightarrow> countdown" where
  "App_render now = \<lparr> targetDate = now, timeLeft = None \<rparr>"

definition useCountdown_tick :: "int \<Rightarrow> countdown \<Rightarrow> countdown" where
  "useCountdown_tick now s = s\<lparr> timeLeft := Some (calculateTimeLeft (targetDate s) now) \<rparr>"

definition App_effect :: "(int \<Rightarrow> int) \<Rightarrow> countdown \<Rightarrow> countdown" where
  "App_effect setFullYear5 s = s\<lparr> targetDate := setFullYear5 (targetDate s) \<rparr>"

definition mount :: "(int \<Rightarrow> int) \<Rightarrow> int \<Rightarrow> int \<Rightarrow> countdown" where
  "mount setFullYear5 t_render t_effect =
     App_effect setFullYear5 (useCountdown_tick t_effect (App_render t_render))"

text \<open>The interval ticks that follow, one per time at which the timer fires.\<close>

fun run_ticks :: "int list \<Rightarrow> countdown \<Rightarrow> countdown" where
  "run_ticks [] s = s"
| "run_ticks (t # ts) s = run_ticks ts (useCountdown_tick t s)"


section \<open>useShayariRotation\<close>

text \<open>
  \<^verbatim>\<open>
  const useShayariRotation = (lines, interval = 7000) => {
    const [currentShayariIndex, setCurrentShayariIndex] = useState(0);
    useEffect(() => {
      const shayariTimer = setInterval(() => {
        setCurrentShayariIndex((prevIndex) => (prevIndex + 1) % lines.length);
      }, interval);
      return () => clearInterval(shayariTimer);
    }, [lines.length, interval]);
    return { currentShayariIndex, currentShayari: lines[currentShayariIndex] };
  };
  \<close>
  The index starts at 0 and is only ever replaced by the updater of the timer, so it is a
  natural number or, once the list is empty, \<^verbatim>\<open>NaN\<close>: \<^verbatim>\<open>n % 0\<close> is \<^verbatim>\<open>NaN\<close>, and
  \<^verbatim>\<open>NaN + 1\<close> and \<^verbatim>\<open>NaN % n\<close> are \<^verbatim>\<open>NaN\<close> again. Reading an array at an index that
  is out of range, or at \<^verbatim>\<open>NaN\<close>, gives \<^verbatim>\<open>undefined\<close>, here \<open>None\<close>. The hook has no
  \<^verbatim>\<open>throw\<close> and no check of the length.
\<close>

datatype js_index = Idx nat | NaN

definition next_index :: "'a list \<Rightarrow> js_index \<Rightarrow> js_index" where
  "next_index lines prevIndex =
     (case prevIndex of
        NaN \<Rightarrow> NaN
      | Idx i \<Rightarrow> if length lines = 0 then NaN else Idx ((i + 1) mod length lines))"

definition element_at :: "'a list \<Rightarrow> js_index \<Rightarrow> 'a option" where
  "element_at lines idx =
     (case idx of
        NaN \<Rightarrow> None
      | Idx i \<Rightarrow> if i < length lines then Some (lines ! i) else None)"

record 'a rotation =
  currentShayariIndex :: js_index
  currentShayari :: "'a option"

definition useShayariRotation :: "'a list \<Rightarrow> js_index \<Rightarrow> 'a rotation" where
  "useShayariRotation lines idx =
     \<lparr> currentShayariIndex = idx, currentShayari = element_at lines idx \<rparr>"

text \<open>What the hook returns once the timer has fired \<open>k\<close> times, starting from \<^verbatim>\<open>useState(0)\<close>.\<close>

definition rotation_after :: "'a list \<Rightarrow> nat \<Rightarrow> 'a rotation" where
  "rotation_after lines k = useShayariRotation lines ((next_index lines ^^ k) (Idx 0))"

text \<open>The specification's rotation state: an index in \<open>[0, N)\<close>.\<close>

definition valid_index :: "'a list \<Rightarrow> js_index \<Rightarrow> bool" where
  "valid_index lines idx = (case idx of NaN \<Rightarrow> False | Idx i \<Rightarrow> i < length lines)"


section \<open>useAudioPlayer\<close>

text \<open>
  \<^verbatim>\<open>
  const useAudioPlayer = (src, consoleMessage) => {
    const audioRef = useRef(null);
    const [isPlayingAudio, setIsPlayingAudio] = useState(false);
    useEffect(() => {
      if (consoleMessage) { console.log(consoleMessage); }
    }, [consoleMessage]);
    const toggleAudio = () => {
      if (audioRef.current) {
        if (isPlayingAudio) {
          audioRef.current.pause();
        } else {
          audioRef.current.play().catch(e => console.error("Audio play failed:", e));
        }
        setIsPlayingAudio(!isPlayingAudio);
      }
    };
    return { audioRef, isPlayingAudio, toggleAudio };
  };
  \<close>
  The state of the hook is explicit. \<open>audioRef\<close> is \<open>None\<close> while \<^verbatim>\<open>audioRef.current\<close>
  is \<^verbatim>\<open>null\<close>, and otherwise the audio element, represented by the requests it has
  received so far. \<open>pending\<close> counts the promises returned by \<^verbatim>\<open>play()\<close> that have not
  settled yet and \<open>console\<close> is what has been written to the console. Each call of
  \<open>toggleAudio\<close> sees the state left by the previous one (the component is rendered
  again between two clicks). A promise settles later, as a step of its own: a rejection
  runs the \<^verbatim>\<open>catch\<close> handler, which only writes to the console.
\<close>

datatype media_request = Play | Pause

datatype play_outcome = Resolved | Rejected string

record audio_player =
  audioRef :: "media_request list option"
  isPlayingAudio :: bool
  pending :: nat
  console :: "string list"

definition useAudioPlayer :: "string \<Rightarrow> audio_player" where
  "useAudioPlayer consoleMessage =
     \<lparr> audioRef = None, isPlayingAudio = False, pending = 0,
       console = (if consoleMessage \<noteq> [] then [consoleMessage] else []) \<rparr>"

text \<open>React stores the rendered \<^verbatim>\<open><audio ref={audioRef}>\<close> element in the ref.\<close>

definition attach :: "audio_player \<Rightarrow> audio_player" where
  "attach s = s\<lparr> audioRef := Some [] \<rparr>"

definition toggleAudio :: "audio_player \<Rightarrow> audio_player" where
  "toggleAudio s =
     (case audioRef s of
        None \<Rightarrow> s
      | Some requests \<Rightarrow>
          (if isPlayingAudio s
           then s\<lparr> audioRef := Some (requests @ [Pause]),
                   isPlayingAudio := \<not> isPlayingAudio s \<rparr>
           else s\<lparr> audioRef := Some (requests @ [Play]),
                   pending := Suc (pending s),
                   isPlayingAudio := \<not> isPlayingAudio s \<rparr>))"

definition settle_play :: "play_outcome \<Rightarrow> audio_player \<Rightarrow> audio_player" where
  "settle_play outcome s =
     (if pending s = 0 then s
      else case outcome of
        Resolved \<Rightarrow> s\<lparr> pending := pending s - 1 \<rparr>
      | Rejected e \<Rightarrow> s\<lparr> pending := pending s - 1,
                         console := console s @ [''Audio play failed: '' @ e] \<rparr>)"


section \<open>useMouseParallax\<close>

text \<open>
  \<^verbatim>\<open>
  const useMouseParallax = (strength = 10) => {
    const [offset, setOffset] = useState({ x: 0, y: 0 });
    useEffect(() => {
      const handleMouseMove = (e) => {
        const { clientX, clientY } = e;
        const { innerWidth, innerHeight } = window;
        const centerX = innerWidth / 2;
        const centerY = innerHeight / 2;
        const offsetX = (clientX - centerX) / centerX * strength;
        const offsetY = (clientY - centerY) / centerY * strength;
        setOffset({ x: offsetX, y: offsetY });
      };
      window.addEventListener('mousemove', handleMouseMove);
      return () => { window.removeEventListener('mousemove', handleMouseMove); };
    }, [strength]);
    return offset;
  };
  \<close>
  The inputs are finite Numbers. A division by zero gives \<^verbatim>\<open>NaN\<close> or an infinity, and a
  product with one of these is again \<^verbatim>\<open>NaN\<close> or an infinity: a Number that is not
  finite is \<open>None\<close>. The fields \<^verbatim>\<open>x\<close> and \<^verbatim>\<open>y\<close> of the offset are \<open>offset_x\<close> and
  \<open>offset_y\<close>.
\<close>

definition js_div :: "real \<Rightarrow> real \<Rightarrow> real option" where
  "js_div a b = (if b = 0 then None else Some (a / b))"

definition js_times :: "real option \<Rightarrow> real \<Rightarrow> real option" where
  "js_times q s = (case q of None \<Rightarrow> None | Some v \<Rightarrow> Some (v * s))"

record offset =
  offset_x :: "real option"
  offset_y :: "real option"

definition initial_offset :: offset where
  "initial_offset = \<lparr> offset_x = Some 0, offset_y = Some 0 \<rparr>"

definition handleMouseMove :: "real \<Rightarrow> real \<Rightarrow> real \<Rightarrow> real \<Rightarrow> real \<Rightarrow> offset" where
  "handleMouseMove strength clientX clientY innerWidth innerHeight =
     (let centerX = innerWidth / 2;
          centerY = innerHeight / 2;
          offsetX = js_times (js_div (clientX - centerX) centerX) strength;
          offsetY = js_times (js_div (clientY - centerY) centerY) strength
      in \<lparr> offset_x = offsetX, offset_y = offsetY \<rparr>)"

text \<open>The specification's bound on an offset: both components finite and in \<open>[-s, s]\<close>.\<close>

definition within_strength :: "real \<Rightarrow> offset \<Rightarrow> bool" where
  "within_strength s off =
     (case (offset_x off, offset_y off) of
        (Some a, Some b) \<Rightarrow> - s \<le> a \<and> a \<le> s \<and> - s \<le> b \<and> b \<le> s
      | _ \<Rightarrow> False)"


section \<open>Properties of the countdown\<close>

lemma js_rem_nonneg_eq:
  assumes "0 \<le> n" and "0 < d"
  shows "js_rem n d = floor_mod n d"
proof -
  from assms have "0 \<le> n / d" by simp
  then show ?thesis by (simp add: js_rem_def trunc_def floor_mod_def)
qed

lemma floor_floor_mod_int:
  assumes "0 < m"
  shows "\<lfloor>floor_mod a (of_int m)\<rfloor> = \<lfloor>a\<rfloor> mod m"
proof -
  have q: "\<lfloor>a / of_int m\<rfloor> = \<lfloor>a\<rfloor> div m"
    using assms by (simp add: floor_divide_real_eq_div)
  have "floor_mod a (of_int m) = a - of_int (m * (\<lfloor>a\<rfloor> div m))"
    by (simp add: floor_mod_def q)
  then have "\<lfloor>floor_mod a (of_int m)\<rfloor> = \<lfloor>a\<rfloor> - m * (\<lfloor>a\<rfloor> div m)"
    by (simp only: floor_diff_of_int)
  also have "\<dots> = \<lfloor>a\<rfloor> mod m"
    by (simp add: minus_mult_div_eq_mod)
  finally show ?thesis .
qed

lemma floor_js_rem_int:
  assumes "0 \<le> a" and "0 < m"
  shows "\<lfloor>js_rem a (of_int m)\<rfloor> = \<lfloor>a\<rfloor> mod m"
  using assms by (simp add: js_rem_nonneg_eq floor_floor_mod_int)

text \<open>
  C1. On every tick the state that \<open>calculateTimeLeft\<close> returns is the one the
  specification describes: all fields 0 when \<open>diff = target - now \<le> 0\<close>, and otherwise
  \<open>years = floor (diff / (ms_per_day * 365.25))\<close>,
  \<open>days = floor ((diff / ms_per_day) mod 365.25)\<close>,
  \<open>hours = floor (diff / ms_per_hour) mod 24\<close>,
  \<open>minutes = floor (diff / ms_per_minute) mod 60\<close> and
  \<open>seconds = floor (diff / 1000) mod 60\<close>, for every target instant and current time.
\<close>

theorem calculateTimeLeft_meets_spec:
  "calculateTimeLeft target now = countdown_spec target now"
proof (cases "target - now \<le> 0")
  case True
  then show ?thesis
    by (simp add: calculateTimeLeft_def countdown_spec_def)
next
  case False
  define d :: real where "d = real_of_int (target - now)"
  from False have pos: "0 < d" by (simp add: d_def)
  have y: "\<lfloor>d / (1000 * 60 * 60 * 24 * 365.25)\<rfloor> = \<lfloor>d / (of_int ms_per_day * 365.25)\<rfloor>"
    by (simp add: ms_per_day_def)
  have dy: "\<lfloor>js_rem (d / (1000 * 60 * 60 * 24)) 365.25\<rfloor>
      = \<lfloor>floor_mod (d / of_int ms_per_day) 365.25\<rfloor>"
    using pos by (simp add: js_rem_nonneg_eq ms_per_day_def)
  have h: "\<lfloor>js_rem (d / (1000 * 60 * 60)) 24\<rfloor> = \<lfloor>d / of_int ms_per_hour\<rfloor> mod 24"
    using pos floor_js_rem_int [of "d / (1000 * 60 * 60)" 24]
    by (simp add: ms_per_hour_def)
  have mi: "\<lfloor>js_rem (d / 1000 / 60) 60\<rfloor> = \<lfloor>d / of_int ms_per_minute\<rfloor> mod 60"
    using pos floor_js_rem_int [of "d / 1000 / 60" 60]
    by (simp add: ms_per_minute_def)
  have s: "\<lfloor>js_rem (d / 1000) 60\<rfloor> = \<lfloor>d / 1000\<rfloor> mod 60"
    using pos floor_js_rem_int [of "d / 1000" 60] by simp
  from False pos show ?thesis
    unfolding calculateTimeLeft_def countdown_spec_def Let_def d_def [symmetric]
    by (simp only: y dy h mi s if_True if_False)
qed

lemma floor_mod_nonneg:
  assumes "0 < m"
  shows "0 \<le> floor_mod a m"
proof -
  have "of_int \<lfloor>a / m\<rfloor> \<le> a / m" by simp
  with assms have "m * of_int \<lfloor>a / m\<rfloor> \<le> m * (a / m)"
    by (intro mult_left_mono) simp_all
  also from assms have "m * (a / m) = a" by simp
  finally show ?thesis by (simp add: floor_mod_def)
qed

lemma calculateTimeLeft_past:
  assumes "target \<le> now"
  shows "calculateTimeLeft target now
           = \<lparr> years = 0, days = 0, hours = 0, minutes = 0, seconds = 0 \<rparr>"
  using assms by (simp add: calculateTimeLeft_def)

lemma calculateTimeLeft_nonneg:
  "0 \<le> years (calculateTimeLeft target now) \<and> 0 \<le> days (calculateTimeLeft target now)
   \<and> 0 \<le> hours (calculateTimeLeft target now) \<and> 0 \<le> minutes (calculateTimeLeft target now)
   \<and> 0 \<le> seconds (calculateTimeLeft target now)"
proof (cases "target \<le> now")
  case True
  then show ?thesis by (simp add: calculateTimeLeft_past)
next
  case False
  define d :: real where "d = real_of_int (target - now)"
  from False have pos: "0 < d" by (simp add: d_def)
  have y: "0 \<le> \<lfloor>d / (1000 * 60 * 60 * 24 * 365.25)\<rfloor>"
    using pos by simp
  have "0 \<le> floor_mod (d / (1000 * 60 * 60 * 24)) 365.25"
    by (rule floor_mod_nonneg) simp
  then have dy: "0 \<le> \<lfloor>js_rem (d / (1000 * 60 * 60 * 24)) 365.25\<rfloor>"
    using pos by (simp add: js_rem_nonneg_eq)
  have h: "0 \<le> \<lfloor>js_rem (d / (1000 * 60 * 60)) 24\<rfloor>"
    using pos floor_js_rem_int [of "d / (1000 * 60 * 60)" 24] by simp
  have mi: "0 \<le> \<lfloor>js_rem (d / 1000 / 60) 60\<rfloor>"
    using pos floor_js_rem_int [of "d / 1000 / 60" 60] by simp
  have s: "0 \<le> \<lfloor>js_rem (d / 1000) 60\<rfloor>"
    using pos floor_js_rem_int [of "d / 1000" 60] by simp
  from pos y dy h mi s show ?thesis
    unfolding calculateTimeLeft_def Let_def d_def [symmetric] by simp
qed

lemma targetDate_run_ticks: "targetDate (run_ticks ts s) = targetDate s"
  by (induction ts arbitrary: s) (simp_all add: useCountdown_tick_def)

lemma run_ticks_snoc:
  "run_ticks (ts @ [t]) s = useCountdown_tick t (run_ticks ts s)"
  by (induction ts arbitrary: s) simp_all

text \<open>
  C2. For a fixed target, once the current time has reached the target
  (\<open>target \<le> now\<close>), the state computed at every later time is exactly
  \<open>{years: 0, days: 0, hours: 0, minutes: 0, seconds: 0}\<close>: it is the state the hook
  holds after any further ticks ending at such a time, the state computed at a still
  later time is the same one (no field grows again), and no field of any computed state
  is negative.
\<close>

theorem countdown_pinned_at_zero:
  assumes "target \<le> now" and "now \<le> later" and "later \<le> later'"
  shows "calculateTimeLeft target later
           = \<lparr> years = 0, days = 0, hours = 0, minutes = 0, seconds = 0 \<rparr>
         \<and> calculateTimeLeft target later' = calculateTimeLeft target later
         \<and> timeLeft (run_ticks (ts @ [later]) \<lparr> targetDate = target, timeLeft = prev \<rparr>)
             = Some \<lparr> years = 0, days = 0, hours = 0, minutes = 0, seconds = 0 \<rparr>
         \<and> 0 \<le> years (calculateTimeLeft target t) \<and> 0 \<le> days (calculateTimeLeft target t)
         \<and> 0 \<le> hours (calculateTimeLeft target t) \<and> 0 \<le> minutes (calculateTimeLeft target t)
         \<and> 0 \<le> seconds (calculateTimeLeft target t)"
proof -
  from assms have a: "target \<le> later" and b: "target \<le> later'" by simp_all
  have "timeLeft (run_ticks (ts @ [later]) \<lparr> targetDate = target, timeLeft = prev \<rparr>)
          = Some (calculateTimeLeft target later)"
    by (simp add: run_ticks_snoc useCountdown_tick_def targetDate_run_ticks)
  then show ?thesis
    using calculateTimeLeft_nonneg [of target t]
    by (simp add: calculateTimeLeft_past [OF a] calculateTimeLeft_past [OF b])
qed

theorem countdown_pinned_at_zero_witness:
  "(1000::int) \<le> 1000 \<and> (1000::int) \<le> 2500 \<and> (2500::int) \<le> 3500
   \<and> calculateTimeLeft 1000 2500
        = \<lparr> years = 0, days = 0, hours = 0, minutes = 0, seconds = 0 \<rparr>
   \<and> calculateTimeLeft 1000 3500 = calculateTimeLeft 1000 2500
   \<and> timeLeft (run_ticks ([1500] @ [2500]) \<lparr> targetDate = 1000, timeLeft = None \<rparr>)
        = Some \<lparr> years = 0, days = 0, hours = 0, minutes = 0, seconds = 0 \<rparr>
   \<and> 0 \<le> years (calculateTimeLeft 1000 0)"
  using countdown_pinned_at_zero [of 1000 1000 2500 3500 "[1500]" None 0] by simp

lemma first_state_at_mount:
  assumes "t_render \<le> t_effect"
  shows "timeLeft (mount setFullYear5 t_render t_effect)
           = Some \<lparr> years = 0, days = 0, hours = 0, minutes = 0, seconds = 0 \<rparr>"
  using assms
  by (simp add: mount_def App_effect_def useCountdown_tick_def App_render_def
      calculateTimeLeft_past)

text \<open>
  C7. The claim is that the target is set to now + 5 years at engine start and that the
  first state, computed at start, is derived from that already-set target. In the code
  the ref is created holding the render time and is moved five years ahead by the effect
  of \<open>App\<close>, which runs after the effect of \<open>useCountdown\<close> has computed the first
  state. Rendered at time 0 (1 January 1970 UTC, five calendar years being
  157766400000 ms) with the effects run 16 ms later, the first state is all zeros,
  although the target the ref holds after the mount is 157766400000 and the state
  derived from it at that moment is 4 years, 364 days, 23 hours, 59 minutes and 59
  seconds. The ticks that follow never change the target.
\<close>

theorem mount_first_state_ignores_target:
  "timeLeft (mount (\<lambda>t. t + 157766400000) 0 16)
     = Some \<lparr> years = 0, days = 0, hours = 0, minutes = 0, seconds = 0 \<rparr>
   \<and> targetDate (mount (\<lambda>t. t + 157766400000) 0 16) = 157766400000
   \<and> calculateTimeLeft 157766400000 16
       = \<lparr> years = 4, days = 364, hours = 23, minutes = 59, seconds = 59 \<rparr>
   \<and> targetDate (run_ticks ts (mount (\<lambda>t. t + 157766400000) 0 16)) = 157766400000"
proof -
  have first: "timeLeft (mount (\<lambda>t. t + 157766400000) 0 16)
     = Some \<lparr> years = 0, days = 0, hours = 0, minutes = 0, seconds = 0 \<rparr>"
    by (rule first_state_at_mount) simp
  have derived: "calculateTimeLeft 157766400000 16
       = \<lparr> years = 4, days = 364, hours = 23, minutes = 59, seconds = 59 \<rparr>"
    by (simp add: calculateTimeLeft_def js_rem_def trunc_def)
  have target: "targetDate (mount (\<lambda>t. t + 157766400000) 0 16) = 157766400000"
    by (simp add: mount_def App_effect_def useCountdown_tick_def App_render_def)
  from first derived target show ?thesis
    by (simp add: targetDate_run_ticks)
qed


section \<open>Properties of the rotation\<close>

lemma next_index_nonempty:
  assumes "lines \<noteq> []"
  shows "next_index lines (Idx i) = Idx ((i + 1) mod length lines)"
  using assms by (simp add: next_index_def)

lemma index_after_ticks:
  assumes "lines \<noteq> []"
  shows "(next_index lines ^^ k) (Idx 0) = Idx (k mod length lines)"
proof (induction k)
  case 0
  then show ?case by simp
next
  case (Suc k)
  have "(next_index lines ^^ Suc k) (Idx 0) = next_index lines (Idx (k mod length lines))"
    by (simp add: Suc.IH)
  also have "\<dots> = Idx ((k mod length lines + 1) mod length lines)"
    using assms by (rule next_index_nonempty)
  also have "(k mod length lines + 1) mod length lines = Suc k mod length lines"
    by (simp add: mod_Suc_eq)
  finally show ?case .
qed

lemma next_index_empty: "next_index [] idx = NaN"
  by (cases idx) (simp_all add: next_index_def)

lemma index_after_ticks_empty: "(next_index [] ^^ Suc k) (Idx 0) = NaN"
  by (simp add: next_index_empty)

text \<open>
  C3. For every non-empty list of length \<open>N\<close>, the index the hook exposes is 0 at the
  start and \<open>k mod N\<close> after exactly \<open>k\<close> ticks; a tick moves the index \<open>i\<close> to
  \<open>(i + 1) mod N\<close>, so each tick advances it by one step modulo \<open>N\<close>, and the current
  item is the list's element at that index.
\<close>

theorem rotation_index_after_ticks:
  assumes "lines \<noteq> []"
  shows "currentShayariIndex (rotation_after lines 0) = Idx 0
         \<and> currentShayariIndex (rotation_after lines k) = Idx (k mod length lines)
         \<and> currentShayariIndex (rotation_after lines (Suc k))
             = next_index lines (currentShayariIndex (rotation_after lines k))
         \<and> next_index lines (Idx i) = Idx ((i + 1) mod length lines)
         \<and> currentShayari (rotation_after lines k) = Some (lines ! (k mod length lines))"
proof -
  from assms have len: "0 < length lines" by simp
  have idx: "currentShayariIndex (rotation_after lines j) = Idx (j mod length lines)" for j
    by (simp add: rotation_after_def useShayariRotation_def index_after_ticks [OF assms])
  have step: "currentShayariIndex (rotation_after lines (Suc k))
      = next_index lines (currentShayariIndex (rotation_after lines k))"
    by (simp add: rotation_after_def useShayariRotation_def)
  have item: "currentShayari (rotation_after lines k) = Some (lines ! (k mod length lines))"
    using len
    by (simp add: rotation_after_def useShayariRotation_def index_after_ticks [OF assms]
        element_at_def)
  from idx [of 0] idx [of k] step item next_index_nonempty [OF assms, of i]
  show ?thesis by simp
qed

theorem rotation_index_after_ticks_witness:
  "[''a'', ''b'', ''c''] \<noteq> []
   \<and> currentShayariIndex (rotation_after [''a'', ''b'', ''c''] 0) = Idx 0
   \<and> currentShayariIndex (rotation_after [''a'', ''b'', ''c''] 3) = Idx 0
   \<and> currentShayariIndex (rotation_after [''a'', ''b'', ''c''] 4) = Idx 1
   \<and> next_index [''a'', ''b'', ''c''] (Idx 2) = Idx 0
   \<and> currentShayari (rotation_after [''a'', ''b'', ''c''] 3) = Some ''a''"
  using rotation_index_after_ticks [of "[''a'', ''b'', ''c'']" 3 2]
  by (simp add: next_index_def)

text \<open>
  C4, as claimed: constructed with an empty list the engine refuses to start with an
  error, rather than running with an invalid index. It fails on the code: with the empty
  list the hook returns a state as for any other list, the index 0 it starts with is not
  a valid index of the list, and the first tick makes the index \<^verbatim>\<open>NaN\<close>.
\<close>

theorem empty_rotation_starts_counterexample:
  "rotation_after ([] :: string list) 0
     = \<lparr> currentShayariIndex = Idx 0, currentShayari = None \<rparr>
   \<and> \<not> valid_index ([] :: string list) (currentShayariIndex (rotation_after [] 0))
   \<and> currentShayariIndex (rotation_after ([] :: string list) 1) = NaN"
  by (simp add: rotation_after_def useShayariRotation_def element_at_def valid_index_def
      next_index_def)

text \<open>
  C4, amended: constructed with an empty list the hook raises no error and starts. It
  exposes the index 0 with no current item (\<^verbatim>\<open>undefined\<close>), and after every tick from
  the first on the index is \<^verbatim>\<open>NaN\<close>, still with no current item.
\<close>

theorem empty_rotation_runs:
  "rotation_after ([] :: 'a list) 0 = \<lparr> currentShayariIndex = Idx 0, currentShayari = None \<rparr>
   \<and> rotation_after ([] :: 'a list) (Suc k)
       = \<lparr> currentShayariIndex = NaN, currentShayari = None \<rparr>"
proof -
  have "rotation_after ([] :: 'a list) (Suc k)
      = \<lparr> currentShayariIndex = NaN, currentShayari = None \<rparr>"
    unfolding rotation_after_def index_after_ticks_empty
    by (simp add: useShayariRotation_def element_at_def)
  then show ?thesis
    by (simp add: rotation_after_def useShayariRotation_def element_at_def)
qed


section \<open>Properties of the audio player\<close>

lemma toggleAudio_attached:
  assumes "audioRef s = Some requests"
  shows "isPlayingAudio (toggleAudio s) = (\<not> isPlayingAudio s)
         \<and> (\<exists>requests'. audioRef (toggleAudio s) = Some requests')"
  using assms by (simp add: toggleAudio_def)

lemma toggleAudio_funpow:
  assumes "audioRef s = Some requests"
  shows "(\<exists>requests'. audioRef ((toggleAudio ^^ n) s) = Some requests')
         \<and> isPlayingAudio ((toggleAudio ^^ n) s) = (isPlayingAudio s \<noteq> odd n)"
proof (induction n)
  case 0
  from assms show ?case by simp
next
  case (Suc n)
  then obtain requests' where a: "audioRef ((toggleAudio ^^ n) s) = Some requests'"
    and b: "isPlayingAudio ((toggleAudio ^^ n) s) = (isPlayingAudio s \<noteq> odd n)"
    by blast
  from toggleAudio_attached [OF a] b show ?case by auto
qed

lemma settle_play_isPlayingAudio:
  "isPlayingAudio (settle_play outcome s) = isPlayingAudio s
   \<and> audioRef (settle_play outcome s) = audioRef s"
  by (cases outcome) (simp_all add: settle_play_def)

text \<open>
  C5. With an audio element attached and the player paused, one \<open>toggleAudio\<close> issues a
  play request and makes \<open>isPlayingAudio\<close> true at once, while the promise of that
  request is still pending; a second \<open>toggleAudio\<close> issues a pause and makes it false
  again. After \<open>n\<close> toggles from the paused state \<open>isPlayingAudio\<close> is true exactly
  when \<open>n\<close> is odd.
\<close>

theorem toggleAudio_alternates:
  assumes "audioRef s = Some requests" and "\<not> isPlayingAudio s"
  shows "isPlayingAudio (toggleAudio s)
         \<and> audioRef (toggleAudio s) = Some (requests @ [Play])
         \<and> pending (toggleAudio s) = Suc (pending s)
         \<and> \<not> isPlayingAudio (toggleAudio (toggleAudio s))
         \<and> audioRef (toggleAudio (toggleAudio s)) = Some (requests @ [Play, Pause])
         \<and> isPlayingAudio ((toggleAudio ^^ n) s) = odd n"
proof -
  have one: "isPlayingAudio (toggleAudio s) \<and> audioRef (toggleAudio s) = Some (requests @ [Play])
      \<and> pending (toggleAudio s) = Suc (pending s)"
    using assms by (simp add: toggleAudio_def)
  then have two: "\<not> isPlayingAudio (toggleAudio (toggleAudio s))
      \<and> audioRef (toggleAudio (toggleAudio s)) = Some (requests @ [Play, Pause])"
    by (simp add: toggleAudio_def [of "toggleAudio s"])
  from toggleAudio_funpow [OF assms(1), of n] assms(2)
  have "isPlayingAudio ((toggleAudio ^^ n) s) = odd n" by simp
  with one two show ?thesis by simp
qed

theorem toggleAudio_alternates_witness:
  "audioRef (attach (useAudioPlayer ''hello'')) = Some []
   \<and> \<not> isPlayingAudio (attach (useAudioPlayer ''hello''))
   \<and> isPlayingAudio (toggleAudio (attach (useAudioPlayer ''hello'')))
   \<and> pending (toggleAudio (attach (useAudioPlayer ''hello''))) = 1
   \<and> audioRef (toggleAudio (toggleAudio (attach (useAudioPlayer ''hello''))))
       = Some [Play, Pause]
   \<and> isPlayingAudio ((toggleAudio ^^ 3) (attach (useAudioPlayer ''hello'')))"
proof -
  have a: "audioRef (attach (useAudioPlayer ''hello'')) = Some []"
    by (simp add: attach_def)
  have b: "\<not> isPlayingAudio (attach (useAudioPlayer ''hello''))"
    by (simp add: attach_def useAudioPlayer_def)
  have c: "pending (attach (useAudioPlayer ''hello'')) = 0"
    by (simp add: attach_def useAudioPlayer_def)
  from toggleAudio_alternates [OF a b, of 3] a b c show ?thesis by simp
qed

text \<open>
  C6. When the play request issued by \<open>toggleAudio\<close> from the paused state is rejected,
  the failure is written to the console and \<open>isPlayingAudio\<close> is not rolled back: it is
  true, as it is after a request that succeeded, and the audio element has received the
  same requests in both cases.
\<close>

theorem failed_play_not_rolled_back:
  assumes "audioRef s = Some requests" and "\<not> isPlayingAudio s"
  shows "console (settle_play (Rejected e) (toggleAudio s))
           = console s @ [''Audio play failed: '' @ e]
         \<and> console (settle_play Resolved (toggleAudio s)) = console s
         \<and> isPlayingAudio (settle_play (Rejected e) (toggleAudio s))
         \<and> isPlayingAudio (settle_play (Rejected e) (toggleAudio s))
             = isPlayingAudio (settle_play Resolved (toggleAudio s))
         \<and> audioRef (settle_play (Rejected e) (toggleAudio s))
             = audioRef (settle_play Resolved (toggleAudio s))"
proof -
  have t: "pending (toggleAudio s) = Suc (pending s) \<and> console (toggleAudio s) = console s
      \<and> isPlayingAudio (toggleAudio s)"
    using assms by (simp add: toggleAudio_def)
  then have "console (settle_play (Rejected e) (toggleAudio s))
           = console s @ [''Audio play failed: '' @ e]"
    and "console (settle_play Resolved (toggleAudio s)) = console s"
    by (simp_all add: settle_play_def)
  with t show ?thesis
    by (simp add: settle_play_isPlayingAudio)
qed

theorem failed_play_not_rolled_back_witness:
  "audioRef (attach (useAudioPlayer [])) = Some []
   \<and> \<not> isPlayingAudio (attach (useAudioPlayer []))
   \<and> console (settle_play (Rejected ''NotAllowedError'') (toggleAudio (attach (useAudioPlayer []))))
       = [''Audio play failed: NotAllowedError'']
   \<and> isPlayingAudio
       (settle_play (Rejected ''NotAllowedError'') (toggleAudio (attach (useAudioPlayer []))))"
proof -
  have a: "audioRef (attach (useAudioPlayer [])) = Some []"
    by (simp add: attach_def)
  have b: "\<not> isPlayingAudio (attach (useAudioPlayer []))"
    by (simp add: attach_def useAudioPlayer_def)
  have c: "console (attach (useAudioPlayer [])) = []"
    by (simp add: attach_def useAudioPlayer_def)
  from failed_play_not_rolled_back [OF a b, of "''NotAllowedError''"] a b c
  show ?thesis by simp
qed

text \<open>
  C10. \<open>toggleAudio\<close> with no audio element attached (\<^verbatim>\<open>audioRef.current\<close> is
  \<^verbatim>\<open>null\<close>) changes nothing: no request is issued, no promise is created, nothing is
  logged and \<open>isPlayingAudio\<close> keeps its value.
\<close>

theorem toggleAudio_null_noop:
  assumes "audioRef s = None"
  shows "toggleAudio s = s"
  using assms by (simp add: toggleAudio_def)

theorem toggleAudio_null_noop_witness:
  "audioRef (useAudioPlayer ''hello'') = None
   \<and> toggleAudio (useAudioPlayer ''hello'') = useAudioPlayer ''hello''"
proof -
  have a: "audioRef (useAudioPlayer ''hello'') = None"
    by (simp add: useAudioPlayer_def)
  from toggleAudio_null_noop [OF a] a show ?thesis by simp
qed


section \<open>Properties of the parallax\<close>

lemma handleMouseMove_finite:
  assumes "w \<noteq> 0" and "h \<noteq> 0"
  shows "handleMouseMove s px py w h
           = \<lparr> offset_x = Some ((px - w / 2) / (w / 2) * s),
               offset_y = Some ((py - h / 2) / (h / 2) * s) \<rparr>"
  using assms by (simp add: handleMouseMove_def js_div_def js_times_def)

text \<open>
  C8. The offset is \<open>{0, 0}\<close> before any pointer event. For a pointer event at
  \<open>(px, py)\<close> in a viewport \<open>(w, h)\<close> of non-zero size and strength \<open>s\<close> the new offset
  is \<open>x = (px - w/2) / (w/2) * s\<close> and \<open>y = (py - h/2) / (h/2) * s\<close>; an event at the
  centre of the viewport gives \<open>{0, 0}\<close> and an event at the top-left corner \<open>(0, 0)\<close>
  gives \<open>{-s, -s}\<close>.
\<close>

theorem parallax_offset_formula:
  assumes "w \<noteq> 0" and "h \<noteq> 0"
  shows "initial_offset = \<lparr> offset_x = Some 0, offset_y = Some 0 \<rparr>
         \<and> handleMouseMove s px py w h
             = \<lparr> offset_x = Some ((px - w / 2) / (w / 2) * s),
                 offset_y = Some ((py - h / 2) / (h / 2) * s) \<rparr>
         \<and> handleMouseMove s (w / 2) (h / 2) w h = \<lparr> offset_x = Some 0, offset_y = Some 0 \<rparr>
         \<and> handleMouseMove s 0 0 w h = \<lparr> offset_x = Some (- s), offset_y = Some (- s) \<rparr>"
  using assms by (simp add: handleMouseMove_finite initial_offset_def)

theorem parallax_offset_formula_witness:
  "(1280::real) \<noteq> 0 \<and> (720::real) \<noteq> 0
   \<and> handleMouseMove 15 960 180 1280 720 = \<lparr> offset_x = Some 7.5, offset_y = Some (- 7.5) \<rparr>
   \<and> handleMouseMove 15 640 360 1280 720 = \<lparr> offset_x = Some 0, offset_y = Some 0 \<rparr>
   \<and> handleMouseMove 15 0 0 1280 720 = \<lparr> offset_x = Some (- 15), offset_y = Some (- 15) \<rparr>"
  using parallax_offset_formula [of 1280 720 15 960 180] by simp

lemma parallax_component_bounded:
  fixes s w p :: real
  assumes "0 \<le> s" and "0 < w" and "0 \<le> p" and "p \<le> w"
  shows "- s \<le> (p - w / 2) / (w / 2) * s \<and> (p - w / 2) / (w / 2) * s \<le> s"
proof -
  define q where "q = (p - w / 2) / (w / 2)"
  from assms have "- 1 \<le> q" and "q \<le> 1"
    by (simp_all add: q_def field_simps)
  with \<open>0 \<le> s\<close> have "- 1 * s \<le> q * s" and "q * s \<le> 1 * s"
    by (intro mult_right_mono; simp)+
  then show ?thesis by (simp add: q_def)
qed

text \<open>
  C9, as claimed: for every pointer event each component of the offset lies in
  \<open>[-strength, +strength]\<close>. It fails on the code, which does not clamp: for a pointer
  at \<open>clientX = 300\<close> in a viewport 100 wide (the pointer is outside the viewport, as
  during a drag that leaves the window) and strength 10 the component \<open>x\<close> is 50.
\<close>

theorem parallax_unbounded_counterexample:
  "offset_x (handleMouseMove 10 300 50 100 100) = Some 50
   \<and> \<not> within_strength 10 (handleMouseMove 10 300 50 100 100)"
  by (simp add: handleMouseMove_def js_div_def js_times_def within_strength_def)

text \<open>
  C9, amended: for a non-negative strength and a pointer event whose position lies
  within the viewport (\<open>0 \<le> px \<le> w\<close>, \<open>0 \<le> py \<le> h\<close>, the viewport of positive size),
  each component of the offset lies in \<open>[-strength, +strength]\<close>.
\<close>

theorem parallax_bounded_in_viewport:
  assumes "0 \<le> s" and "0 < w" and "0 < h"
    and "0 \<le> px" and "px \<le> w" and "0 \<le> py" and "py \<le> h"
  shows "within_strength s (handleMouseMove s px py w h)"
proof -
  from assms have nz: "w \<noteq> 0" "h \<noteq> 0" by simp_all
  from parallax_component_bounded [of s w px] parallax_component_bounded [of s h py] assms
  show ?thesis
    by (simp add: handleMouseMove_finite [OF nz] within_strength_def)
qed

theorem parallax_bounded_in_viewport_witness:
  "(0::real) \<le> 10 \<and> (0::real) < 100 \<and> (0::real) \<le> 100 \<and> (100::real) \<le> 100
   \<and> (0::real) \<le> 0 \<and> (0::real) \<le> 100
   \<and> within_strength 10 (handleMouseMove 10 100 0 100 100)"
  using parallax_bounded_in_viewport [of 10 100 100 100 0] by simp


end
